theory Spec2Isabelle
  imports Main
begin

section \<open>Values that cross the HTTP boundary\<close>

text \<open>
  The module \<^verbatim>\<open>api.ts\<close> reads server replies with \<^verbatim>\<open>response.json()\<close>, whose result has
  the TypeScript type \<^verbatim>\<open>any\<close>: the interfaces \<^verbatim>\<open>TaskResponse\<close> and \<^verbatim>\<open>TaskStatus\<close> are erased
  at run time. A decoded body is therefore modelled as a JSON value. A number is kept as its
  ECMAScript decimal rendering (what \<^verbatim>\<open>String(n)\<close> gives), so that no floating point
  arithmetic is needed: the only things the code does with a number are to test it for
  truthiness and to turn it into text. An object is the list of its own properties; a name
  is looked up with \<open>map_of\<close>.
\<close>

datatype json =
    JNull
  | JBool bool
  | JNum string
  | JStr string
  | JArr "json list"
  | JObj "(string \<times> json) list"

text \<open>
  Anything that can be thrown or handed to a rejection handler. An instance of \<^verbatim>\<open>Error\<close>
  (including \<^verbatim>\<open>TypeError\<close>, \<^verbatim>\<open>SyntaxError\<close>) carries its name and its message; every other
  thrown value is \<open>NonError\<close>, for which \<^verbatim>\<open>error instanceof Error\<close> is false.
\<close>

datatype thrown =
    JsError string string
  | NonError

definition new_Error :: "string \<Rightarrow> thrown" where
  "new_Error msg = JsError ''Error'' msg"

text \<open>
  The two \<^verbatim>\<open>TypeError\<close>s that the engine itself can raise in this module. Their wording is
  the one of V8; nothing below depends on it.
\<close>

definition null_property_error :: "string \<Rightarrow> thrown" where
  "null_property_error p =
     JsError ''TypeError''
       (''Cannot read properties of null (reading '' @ [CHR 0x27] @ p @ [CHR 0x27] @ '')'')"

definition not_primitive_error :: thrown where
  "not_primitive_error = JsError ''TypeError'' ''Cannot convert object to primitive value''"

text \<open>
  Property access \<^verbatim>\<open>v.p\<close> on a decoded value, for the names the module reads
  (\<^verbatim>\<open>error\<close>, \<^verbatim>\<open>status\<close>, \<^verbatim>\<open>task_id\<close>), none of which is defined by a built-in prototype:
  on \<^verbatim>\<open>null\<close> it throws, on an object it is the own property or \<^verbatim>\<open>undefined\<close> (\<open>None\<close>),
  on every other value it is \<^verbatim>\<open>undefined\<close>.
\<close>

fun get_prop :: "json \<Rightarrow> string \<Rightarrow> thrown + json option" where
  "get_prop JNull p = Inl (null_property_error p)"
| "get_prop (JObj kvs) p = Inr (map_of kvs p)"
| "get_prop (JBool b) p = Inr None"
| "get_prop (JNum n) p = Inr None"
| "get_prop (JStr s) p = Inr None"
| "get_prop (JArr xs) p = Inr None"

text \<open>ECMAScript \<^verbatim>\<open>ToBoolean\<close>; \<^verbatim>\<open>JSON.parse\<close> never yields \<^verbatim>\<open>NaN\<close>, and \<^verbatim>\<open>-0\<close> renders as \<^verbatim>\<open>0\<close>.\<close>

fun truthy :: "json \<Rightarrow> bool" where
  "truthy JNull = False"
| "truthy (JBool b) = b"
| "truthy (JNum n) = (n \<noteq> ''0'')"
| "truthy (JStr s) = (s \<noteq> [])"
| "truthy (JArr xs) = True"
| "truthy (JObj kvs) = True"

text \<open>The expression \<^verbatim>\<open>v || 'literal'\<close>, where \<open>v\<close> may be \<^verbatim>\<open>undefined\<close>.\<close>

definition or_default :: "json option \<Rightarrow> string \<Rightarrow> json" where
  "or_default v d =
     (case v of
        None \<Rightarrow> JStr d
      | Some x \<Rightarrow> if truthy x then x else JStr d)"

text \<open>
  ECMAScript \<^verbatim>\<open>ToString\<close>, which \<^verbatim>\<open>new Error(v)\<close> applies to its argument. An array is
  joined with commas, \<^verbatim>\<open>null\<close> elements giving the empty string. A plain object gives
  \<^verbatim>\<open>[object Object]\<close>, unless it has an own property \<^verbatim>\<open>toString\<close>: a decoded value is
  never callable, and \<^verbatim>\<open>Object.prototype.valueOf\<close> returns the object itself, so the
  conversion then throws a \<^verbatim>\<open>TypeError\<close>.
\<close>

fun js_String :: "json \<Rightarrow> thrown + string"
  and js_join :: "json list \<Rightarrow> thrown + string" where
  "js_String JNull = Inr ''null''"
| "js_String (JBool b) = Inr (if b then ''true'' else ''false'')"
| "js_String (JNum n) = Inr n"
| "js_String (JStr s) = Inr s"
| "js_String (JArr xs) = js_join xs"
| "js_String (JObj kvs) =
     (if map_of kvs ''toString'' \<noteq> None then Inl not_primitive_error
      else Inr ''[object Object]'')"
| "js_join [] = Inr []"
| "js_join (x # xs) =
     (case (if x = JNull then Inr [] else js_String x) of
        Inl t \<Rightarrow> Inl t
      | Inr a \<Rightarrow>
          (if xs = [] then Inr a
           else (case js_join xs of
                   Inl t \<Rightarrow> Inl t
                 | Inr b \<Rightarrow> Inr (a @ '','' @ b))))"

text \<open>
  The value raised by \<^verbatim>\<open>throw new Error(data.error || fallback)\<close>: the new \<^verbatim>\<open>Error\<close>, or
  the \<^verbatim>\<open>TypeError\<close> of reading \<^verbatim>\<open>null.error\<close> or of converting the message.
\<close>

definition throw_new_Error_or :: "json \<Rightarrow> string \<Rightarrow> thrown" where
  "throw_new_Error_or errorData fallback =
     (case get_prop errorData ''error'' of
        Inl t \<Rightarrow> t
      | Inr v \<Rightarrow>
          (case js_String (or_default v fallback) of
             Inl t \<Rightarrow> t
           | Inr m \<Rightarrow> new_Error m))"

section \<open>HTTP replies\<close>

text \<open>
  What a call of \<^verbatim>\<open>fetch\<close> settles with. A \<open>response\<close> has the fields the module reads:
  the numeric status, the reason phrase, and the outcome of \<^verbatim>\<open>await response.json()\<close>
  (the decoded value, or the exception the decoder rejects with). \<^verbatim>\<open>response.ok\<close> is
  true exactly for the statuses 200 to 299.
\<close>

record response =
  status :: nat
  statusText :: string
  json_body :: "thrown + json"

definition ok :: "response \<Rightarrow> bool" where
  "ok r = (200 \<le> status r \<and> status r \<le> 299)"

datatype fetch_outcome =
    Rejected thrown
  | Responded response

text \<open>
  The status code inside a template literal: \<^verbatim>\<open>${response.status}\<close> is the code written in
  decimal.
\<close>

definition digit :: "nat \<Rightarrow> char" where
  "digit d = ''0123456789'' ! d"

fun decimal :: "nat \<Rightarrow> string" where
  "decimal n = (if 9 < n then decimal (n div 10) else []) @ [digit (n mod 10)]"

declare decimal.simps [simp del]

definition server_error_text :: "response \<Rightarrow> string" where
  "server_error_text r =
     ''Server error: '' @ decimal (status r) @ '' '' @ statusText r"

section \<open>Effects\<close>

text \<open>
  Everything the module does besides returning: a request is issued, a line goes to the
  console, a toast is shown (title, description, variant), or one of the three callbacks
  of the polling loop is called.
\<close>

datatype effect =
    Fetch string
  | ConsoleError string thrown
  | Toast string string string
  | OnProgress json
  | OnComplete json
  | OnError thrown

definition API_BASE_URL :: string where
  "API_BASE_URL = ''http://192.168.1.39:5000''"

section \<open>Uploads\<close>

text \<open>
  An upload is a function of what its single \<^verbatim>\<open>fetch\<close> settles with: the request
  (form data, headers) does not influence the control flow. The result is the list of
  effects and either the thrown value (\<open>Inl\<close>) or the returned value (\<open>Inr\<close>).

  In \<^verbatim>\<open>uploadVideo\<close> the statement \<^verbatim>\<open>throw new Error(errorData.error || ...)\<close> stands inside
  the inner \<^verbatim>\<open>try\<close>, so the inner \<^verbatim>\<open>catch (jsonError)\<close> receives whatever that block
  raises (the decoder's exception or the new error) and replaces it.
\<close>

definition uploadVideo_not_ok :: "response \<Rightarrow> thrown" where
  "uploadVideo_not_ok r =
     (let jsonError =
            (case json_body r of
               Inl d \<Rightarrow> d
             | Inr errorData \<Rightarrow> throw_new_Error_or errorData (server_error_text r))
      in new_Error (server_error_text r))"

definition uploadVideo_try :: "fetch_outcome \<Rightarrow> thrown + json" where
  "uploadVideo_try f =
     (case f of
        Rejected e \<Rightarrow> Inl e
      | Responded r \<Rightarrow>
          if \<not> ok r then Inl (uploadVideo_not_ok r) else json_body r)"

definition upload_catch :: "string \<Rightarrow> string \<Rightarrow> thrown \<Rightarrow> effect list" where
  "upload_catch label fallback error =
     [ConsoleError label error,
      Toast ''Upload Error''
        (case error of JsError n m \<Rightarrow> m | NonError \<Rightarrow> fallback)
        ''destructive'']"

definition uploadVideo :: "fetch_outcome \<Rightarrow> effect list \<times> (thrown + json)" where
  "uploadVideo f =
     (case uploadVideo_try f of
        Inl error \<Rightarrow>
          (upload_catch ''Error uploading video:'' ''Failed to upload video'' error, Inl error)
      | Inr v \<Rightarrow> ([], Inr v))"

definition uploadAudio_try :: "fetch_outcome \<Rightarrow> thrown + json" where
  "uploadAudio_try f =
     (case f of
        Rejected e \<Rightarrow> Inl e
      | Responded r \<Rightarrow>
          if \<not> ok r then
            (case json_body r of
               Inl d \<Rightarrow> Inl d
             | Inr errorData \<Rightarrow> Inl (throw_new_Error_or errorData ''Failed to upload audio''))
          else json_body r)"

definition uploadAudio :: "fetch_outcome \<Rightarrow> effect list \<times> (thrown + json)" where
  "uploadAudio f =
     (case uploadAudio_try f of
        Inl error \<Rightarrow>
          (upload_catch ''Error uploading audio:'' ''Failed to upload audio'' error, Inl error)
      | Inr v \<Rightarrow> ([], Inr v))"

section \<open>Status query\<close>

text \<open>
  \<^verbatim>\<open>checkTaskStatus\<close> as a function of what its \<^verbatim>\<open>fetch\<close> settles with. On a reply that is
  not ok the body is decoded with no guard, as in \<^verbatim>\<open>uploadAudio\<close>. Failures are logged to
  the console and thrown again; no toast is shown.
\<close>

definition task_url :: "string \<Rightarrow> string" where
  "task_url taskId = API_BASE_URL @ ''/api/task/'' @ taskId"

definition checkTaskStatus_try :: "fetch_outcome \<Rightarrow> thrown + json" where
  "checkTaskStatus_try f =
     (case f of
        Rejected e \<Rightarrow> Inl e
      | Responded r \<Rightarrow>
          if \<not> ok r then
            (case json_body r of
               Inl d \<Rightarrow> Inl d
             | Inr errorData \<Rightarrow>
                 Inl (throw_new_Error_or errorData ''Failed to check task status''))
          else json_body r)"

definition checkTaskStatus :: "fetch_outcome \<Rightarrow> effect list \<times> (thrown + json)" where
  "checkTaskStatus f =
     (case checkTaskStatus_try f of
        Inl error \<Rightarrow> ([ConsoleError ''Error checking task status:'' error], Inl error)
      | Inr v \<Rightarrow> ([], Inr v))"

section \<open>The polling loop\<close>

text \<open>
  \<^verbatim>\<open>pollTaskStatus\<close> runs on the event loop. Its closure holds the task identifier and the
  flag \<^verbatim>\<open>isCancelled\<close>; at any moment the event loop holds at most one continuation of
  \<^verbatim>\<open>checkStatus\<close>: the one waiting at \<^verbatim>\<open>await checkTaskStatus(taskId)\<close> (\<open>InFlight\<close>), or
  the timer set by \<^verbatim>\<open>setTimeout(checkStatus, 1000)\<close> (\<open>Timer\<close>), or none (\<open>Idle\<close>).
  The state also accumulates the effects so far, oldest first.

  What happens next is chosen from outside: the caller invokes the returned handle
  (\<open>Cancel\<close>), the request in flight settles (\<open>Reply\<close>), or the timer expires (\<open>Tick\<close>).
  An event for which nothing is waiting leaves the state as it is. The length of the delay
  is not modelled, only the order of events.

  The callbacks \<^verbatim>\<open>onProgress\<close>, \<^verbatim>\<open>onComplete\<close> and \<^verbatim>\<open>onError\<close> are the caller's code. What a
  call of one of them does to the polling sequence is its \<open>reaction\<close>: it may invoke the
  handle while it runs, and it ends by returning or by throwing a value. A \<open>Reply\<close> carries
  what \<^verbatim>\<open>fetch\<close> settled with, the reaction of the callback called inside the \<^verbatim>\<open>try\<close> block
  in that turn, and the reaction of \<^verbatim>\<open>onError\<close> called inside the \<^verbatim>\<open>catch\<close> block in that
  turn. \<open>Settle f\<close> is the reply in which every callback called simply returns.
\<close>

datatype pending = InFlight | Timer | Idle

record poll_state =
  taskId :: string
  isCancelled :: bool
  pending :: pending
  trace :: "effect list"

record reaction =
  cancels :: bool
  throws :: "thrown option"

definition returns_normally :: reaction where
  "returns_normally = \<lparr>cancels = False, throws = None\<rparr>"

datatype event = Cancel | Reply fetch_outcome reaction reaction | Tick

definition Settle :: "fetch_outcome \<Rightarrow> event" where
  "Settle f = Reply f returns_normally returns_normally"

definition emit :: "effect list \<Rightarrow> poll_state \<Rightarrow> poll_state" where
  "emit es s = s\<lparr>trace := trace s @ es\<rparr>"

text \<open>Entry of \<^verbatim>\<open>checkStatus\<close>, up to the \<^verbatim>\<open>await\<close>: the flag is tested, the request issued.\<close>

definition checkStatus :: "poll_state \<Rightarrow> poll_state" where
  "checkStatus s =
     (if isCancelled s then s\<lparr>pending := Idle\<rparr>
      else (emit [Fetch (task_url (taskId s))] s)\<lparr>pending := InFlight\<rparr>)"

text \<open>
  A call of a callback: the call is recorded, and the flag is set if the callback invokes
  the handle. Whether the call returns or throws is read from the reaction by the caller.
\<close>

definition invoke :: "effect \<Rightarrow> reaction \<Rightarrow> poll_state \<Rightarrow> poll_state" where
  "invoke call r s =
     (if cancels r then (emit [call] s)\<lparr>isCancelled := True\<rparr> else emit [call] s)"

text \<open>
  The \<^verbatim>\<open>catch\<close> block of \<^verbatim>\<open>checkStatus\<close>. If \<^verbatim>\<open>onError\<close> throws here, the promise of
  \<^verbatim>\<open>checkStatus\<close> is rejected and nothing observes it; either way \<^verbatim>\<open>checkStatus\<close> is over.
\<close>

definition checkStatus_catch :: "thrown \<Rightarrow> reaction \<Rightarrow> poll_state \<Rightarrow> poll_state" where
  "checkStatus_catch error r2 s =
     (if \<not> isCancelled s then
        (invoke (OnError (case error of
                            JsError n m \<Rightarrow> error
                          | NonError \<Rightarrow> new_Error ''Failed to check task status'')) r2 s)
          \<lparr>pending := Idle\<rparr>
      else s\<lparr>pending := Idle\<rparr>)"

text \<open>
  A callback called inside the \<^verbatim>\<open>try\<close> block. When it returns, \<^verbatim>\<open>checkStatus\<close> goes on to
  \<open>p\<close> (the timer after \<^verbatim>\<open>onProgress\<close>, nothing after the other two); when it throws, the
  \<^verbatim>\<open>catch\<close> block runs with the thrown value.
\<close>

definition call_in_try ::
  "effect \<Rightarrow> reaction \<Rightarrow> reaction \<Rightarrow> pending \<Rightarrow> poll_state \<Rightarrow> poll_state" where
  "call_in_try call r1 r2 p s =
     (case throws r1 of
        None \<Rightarrow> (invoke call r1 s)\<lparr>pending := p\<rparr>
      | Some t \<Rightarrow> checkStatus_catch t r2 (invoke call r1 s))"

text \<open>
  The rest of \<^verbatim>\<open>checkStatus\<close>, from the point where \<^verbatim>\<open>await checkTaskStatus(taskId)\<close>
  settles. The three branches on \<^verbatim>\<open>status.status\<close> do not read the flag.
\<close>

definition checkStatus_resume ::
  "fetch_outcome \<Rightarrow> reaction \<Rightarrow> reaction \<Rightarrow> poll_state \<Rightarrow> poll_state" where
  "checkStatus_resume f r1 r2 s0 =
     (let (logs, res) = checkTaskStatus f;
          s = emit logs s0
      in case res of
           Inl error \<Rightarrow> checkStatus_catch error r2 s
         | Inr taskStatus \<Rightarrow>
             (case get_prop taskStatus ''status'' of
                Inl t \<Rightarrow> checkStatus_catch t r2 s
              | Inr st \<Rightarrow>
                  if st = Some (JStr ''completed'') then
                    call_in_try (OnComplete taskStatus) r1 r2 Idle s
                  else if st = Some (JStr ''error'') then
                    (case get_prop taskStatus ''error'' of
                       Inl t \<Rightarrow> checkStatus_catch t r2 s
                     | Inr v \<Rightarrow>
                         (case js_String (or_default v ''Task failed'') of
                            Inl t \<Rightarrow> checkStatus_catch t r2 s
                          | Inr m \<Rightarrow> call_in_try (OnError (new_Error m)) r1 r2 Idle s))
                  else
                    call_in_try (OnProgress taskStatus) r1 r2 Timer s))"

text \<open>One turn of the event loop, and a sequence of turns.\<close>

fun step :: "event \<Rightarrow> poll_state \<Rightarrow> poll_state" where
  "step Cancel s = s\<lparr>isCancelled := True\<rparr>"
| "step (Reply f r1 r2) s =
     (if pending s = InFlight then checkStatus_resume f r1 r2 s else s)"
| "step Tick s = (if pending s = Timer then checkStatus s else s)"

fun run :: "event list \<Rightarrow> poll_state \<Rightarrow> poll_state" where
  "run [] s = s"
| "run (e # es) s = run es (step e s)"

text \<open>
  \<^verbatim>\<open>pollTaskStatus(taskId, ...)\<close>: the flag starts false, \<^verbatim>\<open>checkStatus()\<close> is called at once
  and runs up to its \<^verbatim>\<open>await\<close>, and the handle is returned. The state below is the one at
  that return; invoking the handle is the event \<open>Cancel\<close>.
\<close>

definition pollTaskStatus :: "string \<Rightarrow> poll_state" where
  "pollTaskStatus tid =
     checkStatus \<lparr>taskId = tid, isCancelled = False, pending = Idle, trace = []\<rparr>"

text \<open>Replies and records used as concrete inputs below.\<close>

definition ok_reply :: "json \<Rightarrow> fetch_outcome" where
  "ok_reply j = Responded \<lparr>status = 200, statusText = ''OK'', json_body = Inr j\<rparr>"

definition task_record :: "string \<Rightarrow> json" where
  "task_record st =
     JObj [(''id'', JStr ''t1''), (''status'', JStr st), (''type'', JStr ''video''),
           (''filename'', JStr ''clip.mp4'')]"

definition failed_record :: "string \<Rightarrow> json" where
  "failed_record m =
     JObj [(''id'', JStr ''t1''), (''status'', JStr ''error''), (''type'', JStr ''audio''),
           (''filename'', JStr ''voice.wav''), (''error'', JStr m)]"

section \<open>Facts about the event loop\<close>

lemma step_Settle [simp]:
  "step (Settle f) s =
     (if pending s = InFlight then checkStatus_resume f returns_normally returns_normally s
      else s)"
  by (simp add: Settle_def)

lemma Settle_not_Cancel [simp]: "Settle f \<noteq> Cancel"
  by (simp add: Settle_def)

lemma step_Idle:
  "pending s = Idle \<Longrightarrow> pending (step e s) = Idle \<and> trace (step e s) = trace s"
  by (cases e) simp_all

lemma run_Idle:
  "pending s = Idle \<Longrightarrow> pending (run es s) = Idle \<and> trace (run es s) = trace s"
proof (induction es arbitrary: s)
  case Nil
  then show ?case by simp
next
  case (Cons e es)
  from Cons.prems have "pending (step e s) = Idle" and "trace (step e s) = trace s"
    using step_Idle by blast+
  with Cons.IH [of "step e s"] show ?case by simp
qed

text \<open>A cancelled sequence that waits on its timer does nothing more, whatever comes.\<close>

lemma run_cancelled_Timer:
  "isCancelled s \<Longrightarrow> pending s = Timer \<Longrightarrow> trace (run es s) = trace s"
proof (induction es arbitrary: s)
  case Nil
  then show ?case by simp
next
  case (Cons e es)
  show ?case
  proof (cases e)
    case Cancel
    with Cons show ?thesis by simp
  next
    case (Reply f r1 r2)
    with Cons show ?thesis by simp
  next
    case Tick
    with Cons.prems have "pending (step e s) = Idle" and "trace (step e s) = trace s"
      by (simp_all add: checkStatus_def)
    then show ?thesis using run_Idle [of "step e s" es] by simp
  qed
qed

lemma pollTaskStatus_state:
  "pollTaskStatus tid =
     \<lparr>taskId = tid, isCancelled = False, pending = InFlight, trace = [Fetch (task_url tid)]\<rparr>"
  by (simp add: pollTaskStatus_def checkStatus_def emit_def)

lemma call_returns:
  "call_in_try call returns_normally r2 p s = s\<lparr>trace := trace s @ [call], pending := p\<rparr>"
  by (simp add: call_in_try_def returns_normally_def invoke_def emit_def)

lemma resume_progress:
  assumes "checkTaskStatus f = ([], Inr rec)"
    and "get_prop rec ''status'' = Inr st"
    and "st \<noteq> Some (JStr ''completed'')" and "st \<noteq> Some (JStr ''error'')"
  shows "checkStatus_resume f returns_normally returns_normally s =
           s\<lparr>trace := trace s @ [OnProgress rec], pending := Timer\<rparr>"
  using assms by (simp add: checkStatus_resume_def emit_def call_returns)


lemma checkTaskStatus_ok_reply: "checkTaskStatus (ok_reply j) = ([], Inr j)"
  by (simp add: checkTaskStatus_def checkTaskStatus_try_def ok_reply_def ok_def)


lemma call_in_try_trace:
  "trace (call_in_try call r1 r2 p s) =
     trace s @ call #
       (case throws r1 of
          None \<Rightarrow> []
        | Some t \<Rightarrow>
            if isCancelled s \<or> cancels r1 then []
            else [OnError (case t of
                             JsError n x \<Rightarrow> t
                           | NonError \<Rightarrow> JsError ''Error'' ''Failed to check task status'')])"
  by (simp add: call_in_try_def checkStatus_catch_def invoke_def emit_def new_Error_def
      split: option.splits thrown.splits)


lemma invoke_keeps_flag: "isCancelled s \<Longrightarrow> isCancelled (invoke call r s)"
  by (simp add: invoke_def emit_def)

lemma catch_keeps_flag: "isCancelled s \<Longrightarrow> isCancelled (checkStatus_catch t r s)"
  by (simp add: checkStatus_catch_def)

lemma call_in_try_keeps_flag: "isCancelled s \<Longrightarrow> isCancelled (call_in_try call r1 r2 p s)"
  by (simp add: call_in_try_def invoke_keeps_flag catch_keeps_flag split: option.splits)

lemma cancelled_step: "isCancelled s \<Longrightarrow> isCancelled (step e s)"
  by (cases e)
    (auto simp add: checkStatus_resume_def catch_keeps_flag call_in_try_keeps_flag
      checkStatus_def emit_def Let_def split: prod.splits sum.splits)

lemma cancel_again: "isCancelled s \<Longrightarrow> step Cancel s = s"
  by simp

lemma run_without_cancels:
  "isCancelled s \<Longrightarrow> run es s = run (filter (\<lambda>e. e \<noteq> Cancel) es) s"
proof (induction es arbitrary: s)
  case Nil
  then show ?case by simp
next
  case (Cons e es)
  show ?case
  proof (cases "e = Cancel")
    case True
    with Cons.prems have "step e s = s" by (simp add: cancel_again)
    with True Cons.IH [OF Cons.prems] show ?thesis by simp
  next
    case False
    from Cons.prems have "isCancelled (step e s)" by (rule cancelled_step)
    with Cons.IH False show ?thesis by simp
  qed
qed

text \<open>Effects are only ever added at the end of the trace.\<close>

lemma catch_extends: "\<exists>rest. trace (checkStatus_catch t r s) = trace s @ rest"
  by (simp add: checkStatus_catch_def invoke_def emit_def)

lemma call_in_try_extends: "\<exists>rest. trace (call_in_try call r1 r2 p s) = trace s @ rest"
  by (simp add: call_in_try_trace)

lemma resume_extends: "\<exists>rest. trace (checkStatus_resume f r1 r2 s) = trace s @ rest"
proof -
  obtain logs res where c: "checkTaskStatus f = (logs, res)" by (cases "checkTaskStatus f")
  have "\<exists>rest. trace (checkStatus_resume f r1 r2 s) = trace (emit logs s) @ rest"
    using c
    by (simp add: checkStatus_resume_def Let_def catch_extends call_in_try_extends
        split: sum.splits)
  then show ?thesis by (auto simp add: emit_def)
qed

lemma step_extends: "\<exists>rest. trace (step e s) = trace s @ rest"
  by (cases e) (auto simp add: resume_extends checkStatus_def emit_def)

lemma run_extends: "\<exists>rest. trace (run es s) = trace s @ rest"
proof (induction es arbitrary: s)
  case Nil
  then show ?case by simp
next
  case (Cons e es)
  obtain r1 where r1: "trace (step e s) = trace s @ r1" using step_extends by blast
  obtain r2 where "trace (run es (step e s)) = trace (step e s) @ r2" using Cons.IH by blast
  with r1 show ?case by simp
qed

section \<open>The polling loop: properties\<close>






text \<open>
  Claim C6. After the first poll has returned a record that is neither completed nor failed,
  the progress callback has been called with it and the timer is pending. If the handle is
  invoked at that point, then whatever events \<open>es\<close> follow (the timer expiring included),
  the effects stay the first query and that one progress call: no callback is called again
  and no further request is issued.
\<close>

theorem cancel_before_scheduled_poll:
  assumes "checkTaskStatus f = ([], Inr rec)"
    and "get_prop rec ''status'' = Inr st"
    and "st \<noteq> Some (JStr ''completed'')" and "st \<noteq> Some (JStr ''error'')"
  shows "trace (step (Settle f) (pollTaskStatus tid)) = [Fetch (task_url tid), OnProgress rec]
       \<and> pending (step (Settle f) (pollTaskStatus tid)) = Timer
       \<and> trace (run (Settle f # Cancel # es) (pollTaskStatus tid)) =
           [Fetch (task_url tid), OnProgress rec]"
proof -
  let ?s1 = "step (Settle f) (pollTaskStatus tid)"
  have s1: "?s1 = \<lparr>taskId = tid, isCancelled = False, pending = Timer,
       trace = [Fetch (task_url tid), OnProgress rec]\<rparr>"
    using resume_progress [OF assms] by (simp add: pollTaskStatus_state)
  have "trace (run es (step Cancel ?s1)) = trace (step Cancel ?s1)"
    using s1 by (intro run_cancelled_Timer) simp_all
  then show ?thesis using s1 by simp
qed

theorem cancel_before_scheduled_poll_witness:
  "checkTaskStatus (ok_reply (task_record ''queued'')) = ([], Inr (task_record ''queued''))
   \<and> get_prop (task_record ''queued'') ''status'' = Inr (Some (JStr ''queued''))
   \<and> trace (step (Settle (ok_reply (task_record ''queued''))) (pollTaskStatus ''t1'')) =
       [Fetch (task_url ''t1''), OnProgress (task_record ''queued'')]
   \<and> pending (step (Settle (ok_reply (task_record ''queued''))) (pollTaskStatus ''t1'')) = Timer
   \<and> trace (run (Settle (ok_reply (task_record ''queued'')) # Cancel #
                 [Tick, Settle (ok_reply (task_record ''completed'')), Tick])
              (pollTaskStatus ''t1'')) =
       [Fetch (task_url ''t1''), OnProgress (task_record ''queued'')]"
proof -
  have h1: "checkTaskStatus (ok_reply (task_record ''queued'')) = ([], Inr (task_record ''queued''))"
    by (rule checkTaskStatus_ok_reply)
  have h2: "get_prop (task_record ''queued'') ''status'' = Inr (Some (JStr ''queued''))"
    by (simp add: task_record_def)
  have h3: "Some (JStr ''queued'') \<noteq> Some (JStr ''completed'')" by simp
  have h4: "Some (JStr ''queued'') \<noteq> Some (JStr ''error'')" by simp
  from h1 h2 cancel_before_scheduled_poll [OF h1 h2 h3 h4] show ?thesis by blast
qed

text \<open>
  Claim C7. Invoking the handle a second time leaves the state as the first invocation
  left it; and once the handle has been invoked, every later invocation, wherever it falls
  among the other events, can be removed without changing the resulting state, trace
  included.
\<close>

theorem cancel_idempotent:
  "step Cancel (step Cancel s) = step Cancel s
   \<and> run (Cancel # es) s = run (Cancel # filter (\<lambda>e. e \<noteq> Cancel) es) s"
  using run_without_cancels [of "step Cancel s" es] by simp

text \<open>
  Claim C10. When \<^verbatim>\<open>pollTaskStatus\<close> returns the handle, the first status query has been
  issued and is in flight; and if the handle is invoked at once, then whatever events \<open>es\<close>
  follow, the trace still begins with that query.
\<close>

theorem first_query_before_handle:
  "trace (pollTaskStatus tid) = [Fetch (task_url tid)]
   \<and> pending (pollTaskStatus tid) = InFlight
   \<and> (\<exists>rest. trace (run (Cancel # es) (pollTaskStatus tid)) = Fetch (task_url tid) # rest)"
proof -
  obtain rest where
    "trace (run (Cancel # es) (pollTaskStatus tid)) = trace (pollTaskStatus tid) @ rest"
    using run_extends by blast
  then show ?thesis by (simp add: pollTaskStatus_state)
qed

text \<open>
  Claim C1 asks that no callback is called once the handle has been invoked, even with a
  request in flight. The \<^verbatim>\<open>catch\<close> block of \<^verbatim>\<open>checkStatus\<close> tests the flag before calling
  the error callback, but the three branches taken when the query succeeds do not. With
  the first request in flight the handle is invoked (the flag is set, no callback has been
  called yet); when the request then returns a record, the completion callback, the
  progress callback or the error callback is called all the same.
\<close>

theorem callback_after_cancel_in_flight:
  "isCancelled (step Cancel (pollTaskStatus ''t1''))
   \<and> trace (step Cancel (pollTaskStatus ''t1'')) = [Fetch (task_url ''t1'')]
   \<and> trace (run [Cancel, Settle (ok_reply (task_record ''completed''))] (pollTaskStatus ''t1'')) =
       [Fetch (task_url ''t1''), OnComplete (task_record ''completed'')]
   \<and> trace (run [Cancel, Settle (ok_reply (task_record ''running''))] (pollTaskStatus ''t1'')) =
       [Fetch (task_url ''t1''), OnProgress (task_record ''running'')]
   \<and> trace (run [Cancel, Settle (ok_reply (failed_record ''boom''))] (pollTaskStatus ''t1'')) =
       [Fetch (task_url ''t1''), OnError (JsError ''Error'' ''boom'')]"
  by (simp add: pollTaskStatus_state checkTaskStatus_ok_reply failed_record_def task_record_def
      checkStatus_resume_def emit_def or_default_def new_Error_def call_returns)

section \<open>Uploads: properties\<close>

lemma uploadVideo_not_ok_text: "uploadVideo_not_ok r = JsError ''Error'' (server_error_text r)"
  by (simp add: uploadVideo_not_ok_def new_Error_def)

text \<open>
  Whatever the body of a reply that is not ok, \<^verbatim>\<open>uploadVideo\<close> fails with the message built
  from the status code and the reason phrase.
\<close>

lemma uploadVideo_rejected_reply:
  "\<not> ok r \<Longrightarrow>
   uploadVideo (Responded r) =
     ([ConsoleError ''Error uploading video:'' (JsError ''Error'' (server_error_text r)),
       Toast ''Upload Error'' (server_error_text r) ''destructive''],
      Inl (JsError ''Error'' (server_error_text r)))"
  by (simp add: uploadVideo_def uploadVideo_try_def uploadVideo_not_ok_text upload_catch_def)

text \<open>\<^verbatim>\<open>uploadAudio\<close> does pass on a server message that is a string and not empty.\<close>

lemma uploadAudio_server_message:
  assumes "\<not> ok r" and "json_body r = Inr errorData"
    and "get_prop errorData ''error'' = Inr (Some (JStr x))" and "x \<noteq> []"
  shows "uploadAudio (Responded r) =
     ([ConsoleError ''Error uploading audio:'' (JsError ''Error'' x),
       Toast ''Upload Error'' x ''destructive''],
      Inl (JsError ''Error'' x))"
  using assms
  by (simp add: uploadAudio_def uploadAudio_try_def throw_new_Error_or_def or_default_def
      new_Error_def upload_catch_def)

text \<open>In \<^verbatim>\<open>uploadAudio\<close> the decoder's exception on a reply that is not ok reaches the caller.\<close>

lemma uploadAudio_decode_failure:
  assumes "\<not> ok r" and "json_body r = Inl d"
  shows "snd (uploadAudio (Responded r)) = Inl d"
  using assms by (simp add: uploadAudio_def uploadAudio_try_def)

lemma decimal_400: "decimal 400 = ''400''"
  by code_simp

text \<open>
  Claim C2 asks that a reply that is not ok and whose JSON body has \<^verbatim>\<open>error: "X"\<close> makes
  the upload fail with message \<^verbatim>\<open>X\<close>. In \<^verbatim>\<open>uploadVideo\<close> the error built from the body is
  thrown inside the inner \<^verbatim>\<open>try\<close> and replaced by its \<^verbatim>\<open>catch\<close>: for the reply
  \<^verbatim>\<open>400 Bad Request\<close> with body \<^verbatim>\<open>{"error": "No file part"}\<close> the caller and the toast get
  \<^verbatim>\<open>Server error: 400 Bad Request\<close>.
\<close>

theorem uploadVideo_discards_server_message:
  "uploadVideo (Responded \<lparr>status = 400, statusText = ''Bad Request'',
       json_body = Inr (JObj [(''error'', JStr ''No file part'')])\<rparr>) =
     ([ConsoleError ''Error uploading video:'' (JsError ''Error'' ''Server error: 400 Bad Request''),
       Toast ''Upload Error'' ''Server error: 400 Bad Request'' ''destructive''],
      Inl (JsError ''Error'' ''Server error: 400 Bad Request''))"
  by (simp add: uploadVideo_rejected_reply ok_def server_error_text_def decimal_400)

text \<open>
  Claim C3 asks that a reply that is not ok and whose body is not JSON makes the upload fail
  with a message holding the status code and the reason phrase, the decoder's exception
  never reaching the caller. \<^verbatim>\<open>uploadAudio\<close> decodes the body with no guard: for the reply
  \<^verbatim>\<open>500 Internal Server Error\<close> with an empty body the caller gets the decoder's
  \<^verbatim>\<open>SyntaxError\<close> itself, and the toast shows its message.
\<close>

theorem uploadAudio_propagates_decode_failure:
  "uploadAudio (Responded \<lparr>status = 500, statusText = ''Internal Server Error'',
       json_body = Inl (JsError ''SyntaxError'' ''Unexpected end of JSON input'')\<rparr>) =
     ([ConsoleError ''Error uploading audio:''
         (JsError ''SyntaxError'' ''Unexpected end of JSON input''),
       Toast ''Upload Error'' ''Unexpected end of JSON input'' ''destructive''],
      Inl (JsError ''SyntaxError'' ''Unexpected end of JSON input''))"
  by (simp add: uploadAudio_def uploadAudio_try_def ok_def upload_catch_def)

text \<open>
  Claim C8. On a reply that is ok and whose body decodes to a value \<open>j\<close>, \<^verbatim>\<open>uploadVideo\<close>
  returns \<open>j\<close> itself, so its \<^verbatim>\<open>task_id\<close> and \<^verbatim>\<open>status\<close> are the decoded ones, and it has no
  effect: no toast is shown (and nothing is logged).
\<close>

theorem uploadVideo_success:
  assumes "ok r" and "json_body r = Inr j"
  shows "uploadVideo (Responded r) = ([], Inr j)"
  using assms by (simp add: uploadVideo_def uploadVideo_try_def)

theorem uploadVideo_success_witness:
  "ok \<lparr>status = 200, statusText = ''OK'',
        json_body = Inr (JObj [(''task_id'', JStr ''t1''), (''status'', JStr ''queued'')])\<rparr>
   \<and> uploadVideo (Responded \<lparr>status = 200, statusText = ''OK'',
        json_body = Inr (JObj [(''task_id'', JStr ''t1''), (''status'', JStr ''queued'')])\<rparr>) =
       ([], Inr (JObj [(''task_id'', JStr ''t1''), (''status'', JStr ''queued'')]))"
proof -
  let ?r = "\<lparr>status = 200, statusText = ''OK'',
        json_body = Inr (JObj [(''task_id'', JStr ''t1''), (''status'', JStr ''queued'')])\<rparr>"
  have h1: "ok ?r" by (simp add: ok_def)
  have h2: "json_body ?r = Inr (JObj [(''task_id'', JStr ''t1''), (''status'', JStr ''queued'')])"
    by simp
  from h1 uploadVideo_success [OF h1 h2] show ?thesis by blast
qed

text \<open>
  Claim C9. Whenever \<^verbatim>\<open>uploadVideo\<close> or \<^verbatim>\<open>uploadAudio\<close> fails with an error \<open>err\<close>, that same
  \<open>err\<close> is what the caller receives and a toast has been shown whose description is the
  message of \<open>err\<close> (after the console line). An upload fails exactly when the request is
  rejected (a network error), or is answered with a reply that is not ok, or with a reply
  whose body does not decode; after a network error \<open>e\<close> the error raised is \<open>e\<close> itself.
\<close>

theorem upload_failure_toast_and_rethrow:
  "(snd (uploadVideo f) = Inl err \<longrightarrow>
      fst (uploadVideo f) =
        [ConsoleError ''Error uploading video:'' err,
         Toast ''Upload Error''
           (case err of JsError n m \<Rightarrow> m | NonError \<Rightarrow> ''Failed to upload video'')
           ''destructive''])
   \<and> (snd (uploadAudio f) = Inl err \<longrightarrow>
      fst (uploadAudio f) =
        [ConsoleError ''Error uploading audio:'' err,
         Toast ''Upload Error''
           (case err of JsError n m \<Rightarrow> m | NonError \<Rightarrow> ''Failed to upload audio'')
           ''destructive''])
   \<and> ((\<exists>x. snd (uploadVideo f) = Inl x) =
        (case f of
           Rejected e \<Rightarrow> True
         | Responded r \<Rightarrow> \<not> ok r \<or> (\<exists>d. json_body r = Inl d)))
   \<and> ((\<exists>x. snd (uploadAudio f) = Inl x) =
        (case f of
           Rejected e \<Rightarrow> True
         | Responded r \<Rightarrow> \<not> ok r \<or> (\<exists>d. json_body r = Inl d)))
   \<and> snd (uploadVideo (Rejected e)) = Inl e
   \<and> snd (uploadAudio (Rejected e)) = Inl e"
proof -
  have video: "snd (uploadVideo f) = uploadVideo_try f"
    by (simp add: uploadVideo_def split: sum.splits)
  have audio: "snd (uploadAudio f) = uploadAudio_try f"
    by (simp add: uploadAudio_def split: sum.splits)
  have "snd (uploadVideo f) = Inl err \<longrightarrow>
      fst (uploadVideo f) =
        [ConsoleError ''Error uploading video:'' err,
         Toast ''Upload Error''
           (case err of JsError n m \<Rightarrow> m | NonError \<Rightarrow> ''Failed to upload video'')
           ''destructive'']"
    by (simp add: uploadVideo_def upload_catch_def split: sum.splits)
  moreover have "snd (uploadAudio f) = Inl err \<longrightarrow>
      fst (uploadAudio f) =
        [ConsoleError ''Error uploading audio:'' err,
         Toast ''Upload Error''
           (case err of JsError n m \<Rightarrow> m | NonError \<Rightarrow> ''Failed to upload audio'')
           ''destructive'']"
    by (simp add: uploadAudio_def upload_catch_def split: sum.splits)
  moreover have "(\<exists>x. snd (uploadVideo f) = Inl x) =
        (case f of
           Rejected e \<Rightarrow> True
         | Responded r \<Rightarrow> \<not> ok r \<or> (\<exists>d. json_body r = Inl d))"
    unfolding video
    by (cases f) (auto simp add: uploadVideo_try_def)
  moreover have "(\<exists>x. snd (uploadAudio f) = Inl x) =
        (case f of
           Rejected e \<Rightarrow> True
         | Responded r \<Rightarrow> \<not> ok r \<or> (\<exists>d. json_body r = Inl d))"
    unfolding audio
    by (cases f) (auto simp add: uploadAudio_try_def split: sum.splits)
  moreover have "snd (uploadVideo (Rejected e)) = Inl e"
    by (simp add: uploadVideo_def uploadVideo_try_def)
  moreover have "snd (uploadAudio (Rejected e)) = Inl e"
    by (simp add: uploadAudio_def uploadAudio_try_def)
  ultimately show ?thesis by blast
qed

theorem upload_failure_toast_and_rethrow_witness:
  "snd (uploadVideo (Responded \<lparr>status = 200, statusText = ''OK'',
          json_body = Inl (JsError ''SyntaxError'' ''Unexpected end of JSON input'')\<rparr>)) =
     Inl (JsError ''SyntaxError'' ''Unexpected end of JSON input'')
   \<and> fst (uploadVideo (Responded \<lparr>status = 200, statusText = ''OK'',
          json_body = Inl (JsError ''SyntaxError'' ''Unexpected end of JSON input'')\<rparr>)) =
     [ConsoleError ''Error uploading video:''
        (JsError ''SyntaxError'' ''Unexpected end of JSON input''),
      Toast ''Upload Error'' ''Unexpected end of JSON input'' ''destructive'']
   \<and> snd (uploadAudio (Responded \<lparr>status = 200, statusText = ''OK'',
          json_body = Inl (JsError ''SyntaxError'' ''Unexpected end of JSON input'')\<rparr>)) =
     Inl (JsError ''SyntaxError'' ''Unexpected end of JSON input'')
   \<and> fst (uploadAudio (Responded \<lparr>status = 200, statusText = ''OK'',
          json_body = Inl (JsError ''SyntaxError'' ''Unexpected end of JSON input'')\<rparr>)) =
     [ConsoleError ''Error uploading audio:''
        (JsError ''SyntaxError'' ''Unexpected end of JSON input''),
      Toast ''Upload Error'' ''Unexpected end of JSON input'' ''destructive'']"
proof -
  let ?d = "JsError ''SyntaxError'' ''Unexpected end of JSON input''"
  let ?f = "Responded \<lparr>status = 200, statusText = ''OK'', json_body = Inl ?d\<rparr>"
  have h1: "snd (uploadVideo ?f) = Inl ?d"
    by (simp add: uploadVideo_def uploadVideo_try_def ok_def)
  have h2: "snd (uploadAudio ?f) = Inl ?d"
    by (simp add: uploadAudio_def uploadAudio_try_def ok_def)
  from h1 h2 upload_failure_toast_and_rethrow [of ?f ?d] show ?thesis by simp
qed

end
